theory Spec2Isabelle
  imports Main
begin

section \<open>The labeler action: rule parsing, rule evaluation, label reconciliation\<close>

text \<open>
  A shallow embedding of the pull-request labeler script (the later of the two revisions,
  the one with \<open>removable\<close>, \<open>opened_only\<close>, \<open>mergeState\<close> and \<open>alwaysRemove\<close>).
  The calls to the hosting platform are inputs (what they return) and outputs (the
  argument of the label replacement); the glob library is a parameter \<open>matches\<close>.
\<close>

subsection \<open>Values of the loaded configuration\<close>

text \<open>
  The configuration is what the YAML loader returns, typed \<open>any\<close> in the source. An
  object is the list of its own properties in enumeration order.
\<close>

datatype jsval =
    JUndefined
  | JNull
  | JBool bool
  | JNum int
  | JStr string
  | JArr "jsval list"
  | JObj "(string \<times> jsval) list"

text \<open>
  What the script can throw in the modelled part: the \<open>TypeError\<close> of the runtime
  (a property read on \<open>null\<close> or \<open>undefined\<close>, a glob pattern that is not a string) and
  the \<open>Error\<close> raised by the parser, with its message.
\<close>

datatype error = TypeError | Error string

text \<open>
  The property read \<open>v[k]\<close>, for the four keys the parser reads (\<open>type\<close>, \<open>removable\<close>,
  \<open>opened_only\<close>, \<open>patterns\<close>): it throws on \<open>null\<close> and \<open>undefined\<close>, finds the property
  of an object, and is \<open>undefined\<close> on booleans, numbers, strings and arrays, which have
  no property of these names.
\<close>

fun getprop :: "jsval \<Rightarrow> string \<Rightarrow> error + jsval" where
  "getprop JUndefined k = Inl TypeError"
| "getprop JNull k = Inl TypeError"
| "getprop (JObj kvs) k = Inr (case map_of kvs k of None \<Rightarrow> JUndefined | Some v \<Rightarrow> v)"
| "getprop v k = Inr JUndefined"

subsection \<open>Label reconciliation: \<open>updateLabels\<close>\<close>

text \<open>
  \<open>new Set(xs)\<close> spread back into an array: the elements of \<open>xs\<close> in the order of their
  first occurrence. \<open>Set_add\<close> is one \<open>add\<close> on the insertion-ordered contents.
\<close>

definition Set_add :: "'a list \<Rightarrow> 'a \<Rightarrow> 'a list" where
  "Set_add s x = (if x \<in> set s then s else s @ [x])"

definition new_Set :: "'a list \<Rightarrow> 'a list" where
  "new_Set xs = foldl Set_add [] xs"

text \<open>
  The local \<open>resulting_labels\<close> of \<open>updateLabels\<close>:
  \<^verbatim>\<open>[...new Set([...current_labels, ...labels_to_add])].filter(p => !labels_to_remove.includes(p))\<close>
\<close>

definition resulting_labels :: "string list \<Rightarrow> string list \<Rightarrow> string list \<Rightarrow> string list" where
  "resulting_labels current_labels labels_to_add labels_to_remove =
     filter (\<lambda>p. p \<notin> set labels_to_remove)
       (new_Set (current_labels @ labels_to_add))"

text \<open>The one external write of the script: the labels given to \<open>issues.replaceLabels\<close>.\<close>

datatype call = replaceLabels "string list"

definition updateLabels :: "string list \<Rightarrow> string list \<Rightarrow> string list \<Rightarrow> call" where
  "updateLabels current_labels labels_to_add labels_to_remove =
     replaceLabels (resulting_labels current_labels labels_to_add labels_to_remove)"

subsection \<open>The rule model: \<open>LabelType\<close> and \<open>LabelerKey\<close>\<close>

text \<open>
  \<open>LabelType\<close> is a \<open>const enum\<close> of strings: at run time a label type is a string, and
  the parser can store any string in a key (it assigns the \<open>type\<close> field of the
  configuration unchecked). The four members are string constants.
\<close>

type_synonym LabelType = string

definition filesChanged :: LabelType where "filesChanged = ''filesChanged''"
definition title :: LabelType where "title = ''title''"
definition mergeState :: LabelType where "mergeState = ''mergeState''"
definition alwaysRemove :: LabelType where "alwaysRemove = ''alwaysRemove''"

record LabelerKey =
  type :: LabelType
  label :: string
  removable :: bool
  opened_only :: bool

subsection \<open>The parser: \<open>getLabelGlobMapFromObject\<close>\<close>

text \<open>
  The body of the \<open>for (const label in configObject)\<close> loop, for the entry \<open>lbl\<close>
  (the source's \<open>label\<close>) whose value is \<open>body\<close> (\<open>configObject[label]\<close>): the key and the globs it stores in
  the map, or what it throws. An array of patterns is stored as it is, whatever its
  elements are.
\<close>

definition unexpected_type :: "string \<Rightarrow> string" where
  "unexpected_type lbl =
     ''found unexpected type for label patterns '' @ lbl @
     '' (should be string or array of globs)''"

definition labelGlobs_entry :: "string \<Rightarrow> jsval \<Rightarrow> error + (LabelerKey \<times> jsval list)" where
  "labelGlobs_entry lbl body =
     (case getprop body ''type'' of Inl e \<Rightarrow> Inl e | Inr t \<Rightarrow>
      (case getprop body ''removable'' of Inl e \<Rightarrow> Inl e | Inr r \<Rightarrow>
       (case getprop body ''opened_only'' of Inl e \<Rightarrow> Inl e | Inr oo \<Rightarrow>
        (case getprop body ''patterns'' of Inl e \<Rightarrow> Inl e | Inr ps \<Rightarrow>
          (let keytype = (case t of JStr s \<Rightarrow> s | _ \<Rightarrow> filesChanged);
               removable' = (case r of JBool b \<Rightarrow> b | _ \<Rightarrow> False);
               opened_only' = (case oo of JBool b \<Rightarrow> b | _ \<Rightarrow> False);
               key = \<lparr>type = keytype, label = lbl, removable = removable',
                      opened_only = opened_only'\<rparr>
           in (case ps of
                 JStr s \<Rightarrow> Inr (key, [JStr s])
               | JArr xs \<Rightarrow> Inr (key, xs)
               | _ \<Rightarrow>
                  if keytype = alwaysRemove \<or> keytype = mergeState
                  then Inr (key, [JStr ''not applicable''])
                  else Inl (Error (unexpected_type lbl))))))))"

text \<open>
  The loop. Every \<open>new LabelerKey\<close> is a fresh object, so every \<open>set\<close> appends an entry
  to the insertion-ordered map: the map is the list of its entries. A throw leaves the
  loop and the function, and the map built so far is lost.
\<close>

fun labelGlobs_loop ::
  "(string \<times> jsval) list \<Rightarrow> (LabelerKey \<times> jsval list) list
     \<Rightarrow> error + (LabelerKey \<times> jsval list) list" where
  "labelGlobs_loop [] labelGlobs = Inr labelGlobs"
| "labelGlobs_loop ((lbl, body) # rest) labelGlobs =
     (case labelGlobs_entry lbl body of
        Inl e \<Rightarrow> Inl e
      | Inr kv \<Rightarrow> labelGlobs_loop rest (labelGlobs @ [kv]))"

text \<open>
  \<open>configObject\<close> is given as the list of its entries (label and value) in the order
  \<open>for ... in\<close> enumerates them.
\<close>

definition getLabelGlobMapFromObject ::
  "(string \<times> jsval) list \<Rightarrow> error + (LabelerKey \<times> jsval list) list" where
  "getLabelGlobMapFromObject configObject = labelGlobs_loop configObject []"

subsection \<open>The matcher: \<open>checkGlobs\<close>\<close>

text \<open>
  The glob library is a parameter: \<open>matches p c\<close> says whether the pattern \<open>p\<close> matches
  the candidate \<open>c\<close>. Its constructor \<open>new Minimatch(glob)\<close> checks the pattern before
  it builds a matcher: it throws a \<open>TypeError\<close> when \<open>glob\<close> is not a string (``glob
  pattern string required'') and when it is longer than 64K characters (``pattern is
  too long'').
\<close>

definition MAX_PATTERN_LENGTH :: nat where
  "MAX_PATTERN_LENGTH = 1024 * 64"

definition Minimatch :: "(string \<Rightarrow> string \<Rightarrow> bool) \<Rightarrow> jsval \<Rightarrow> error + (string \<Rightarrow> bool)" where
  "Minimatch matches glob =
     (case glob of
        JStr p \<Rightarrow> if length p > MAX_PATTERN_LENGTH then Inl TypeError else Inr (matches p)
      | _ \<Rightarrow> Inl TypeError)"

text \<open>The inner loop over the candidates, with its \<open>return true\<close> at the first match.\<close>

fun checkGlobs_files :: "(string \<Rightarrow> bool) \<Rightarrow> string list \<Rightarrow> bool" where
  "checkGlobs_files matcher [] = False"
| "checkGlobs_files matcher (changedFile # rest) =
     (if matcher changedFile then True else checkGlobs_files matcher rest)"

text \<open>The outer loop over the patterns; a matcher is built before its pattern is tried.\<close>

fun checkGlobs ::
  "(string \<Rightarrow> string \<Rightarrow> bool) \<Rightarrow> string list \<Rightarrow> jsval list \<Rightarrow> error + bool" where
  "checkGlobs matches changedFiles [] = Inr False"
| "checkGlobs matches changedFiles (glob # globs) =
     (case Minimatch matches glob of
        Inl e \<Rightarrow> Inl e
      | Inr matcher \<Rightarrow>
          if checkGlobs_files matcher changedFiles then Inr True
          else checkGlobs matches changedFiles globs)"

subsection \<open>The evaluator: \<open>run\<close>\<close>

text \<open>
  What \<open>run\<close> has fetched before it evaluates the rules: the action of the event, the
  changed files, and the title, the labels and the mergeable flag of the pull request
  (the platform gives \<open>true\<close>, \<open>false\<close> or \<open>null\<close>: \<open>None\<close> is \<open>null\<close>).
\<close>

record facts =
  action :: string
  changedFiles :: "string list"
  prTitle :: string
  current_labels :: "string list"
  mergeable :: "bool option"

text \<open>
  The body of the loop over the rules, on the pair \<open>(labels_to_add, labels_to_remove)\<close>.
  The \<open>switch\<close> compares the type of the key with the four members of \<open>LabelType\<close> in
  the order of its cases and has no \<open>default\<close>; \<open>!mergeable\<close> holds for \<open>false\<close> and
  for \<open>null\<close>.
\<close>

fun run_rule ::
  "(string \<Rightarrow> string \<Rightarrow> bool) \<Rightarrow> facts \<Rightarrow> LabelerKey \<times> jsval list
     \<Rightarrow> string list \<times> string list \<Rightarrow> error + (string list \<times> string list)" where
  "run_rule matches f (key, globs) (labels_to_add, labels_to_remove) =
     (if opened_only key \<and> action f \<noteq> ''opened'' then Inr (labels_to_add, labels_to_remove)
      else if type key = filesChanged then
        (case checkGlobs matches (changedFiles f) globs of
           Inl e \<Rightarrow> Inl e
         | Inr c \<Rightarrow>
             if c then Inr (labels_to_add @ [label key], labels_to_remove)
             else if removable key then Inr (labels_to_add, labels_to_remove @ [label key])
             else Inr (labels_to_add, labels_to_remove))
      else if type key = alwaysRemove then
        Inr (labels_to_add, labels_to_remove @ [label key])
      else if type key = mergeState then
        (if mergeable f \<noteq> Some True then Inr (labels_to_add @ [label key], labels_to_remove)
         else if removable key then Inr (labels_to_add, labels_to_remove @ [label key])
         else Inr (labels_to_add, labels_to_remove))
      else if type key = title then
        (case checkGlobs matches [prTitle f] globs of
           Inl e \<Rightarrow> Inl e
         | Inr c \<Rightarrow>
             if c then Inr (labels_to_add @ [label key], labels_to_remove)
             else if removable key then Inr (labels_to_add, labels_to_remove @ [label key])
             else Inr (labels_to_add, labels_to_remove))
      else Inr (labels_to_add, labels_to_remove))"

fun run_rules ::
  "(string \<Rightarrow> string \<Rightarrow> bool) \<Rightarrow> facts \<Rightarrow> (LabelerKey \<times> jsval list) list
     \<Rightarrow> string list \<times> string list \<Rightarrow> error + (string list \<times> string list)" where
  "run_rules matches f [] acc = Inr acc"
| "run_rules matches f (rule # rest) acc =
     (case run_rule matches f rule acc of
        Inl e \<Rightarrow> Inl e
      | Inr acc' \<Rightarrow> run_rules matches f rest acc')"

text \<open>
  How a run ends: it returns early for want of a pull request number, it catches an
  error and reports the failure, or it completes, having issued the calls listed.
\<close>

datatype outcome = Exited | Failed error | Completed "call list"

text \<open>
  \<open>run\<close>, from the pull request number on (\<open>!prNumber\<close> holds for \<open>undefined\<close> and for
  0). The configuration is parsed before the rules are evaluated, and the labels are
  replaced only when one of the two lists has an element.
\<close>

definition run ::
  "(string \<Rightarrow> string \<Rightarrow> bool) \<Rightarrow> nat option \<Rightarrow> facts \<Rightarrow> (string \<times> jsval) list \<Rightarrow> outcome" where
  "run matches prNumber f configObject =
     (if prNumber = None \<or> prNumber = Some 0 then Exited
      else
        (case getLabelGlobMapFromObject configObject of
           Inl e \<Rightarrow> Failed e
         | Inr labelGlobs \<Rightarrow>
            (case run_rules matches f labelGlobs ([], []) of
               Inl e \<Rightarrow> Failed e
             | Inr (labels_to_add, labels_to_remove) \<Rightarrow>
                 if length labels_to_add > 0 \<or> length labels_to_remove > 0
                 then Completed
                   [updateLabels (current_labels f) labels_to_add labels_to_remove]
                 else Completed [])))"

text \<open>The external writes of a run: none when it exits early or fails.\<close>

fun calls :: "outcome \<Rightarrow> call list" where
  "calls Exited = []"
| "calls (Failed e) = []"
| "calls (Completed cs) = cs"

subsection \<open>The evaluation of a rule, as the specification words it\<close>


definition spec_anyMatch ::
  "(string \<Rightarrow> string \<Rightarrow> bool) \<Rightarrow> string list \<Rightarrow> jsval list \<Rightarrow> bool" where
  "spec_anyMatch matches candidates patterns =
     list_ex (\<lambda>g. case g of JStr p \<Rightarrow> list_ex (matches p) candidates | _ \<Rightarrow> False) patterns"


subsection \<open>A matcher for the examples\<close>

text \<open>
  The examples below need some value for the parameter \<open>matches\<close>. This one knows the
  pattern \<open>*\<close>, which matches every candidate, and matches any other pattern only with
  itself. The general statements hold for every \<open>matches\<close>.
\<close>

definition star_or_same :: "string \<Rightarrow> string \<Rightarrow> bool" where
  "star_or_same p c = (p = ''*'' \<or> p = c)"

section \<open>Properties\<close>

subsection \<open>Label reconciliation\<close>

lemma set_foldl_Set_add: "set (foldl Set_add s xs) = set s \<union> set xs"
  by (induction xs arbitrary: s) (auto simp: Set_add_def)

lemma distinct_foldl_Set_add: "distinct s \<Longrightarrow> distinct (foldl Set_add s xs)"
  by (induction xs arbitrary: s) (auto simp: Set_add_def)

lemma foldl_Set_add_distinct: "distinct (s @ xs) \<Longrightarrow> foldl Set_add s xs = s @ xs"
  by (induction xs arbitrary: s) (auto simp: Set_add_def)

lemma filter_foldl_Set_add:
  "\<forall>x\<in>set xs. P x \<longrightarrow> x \<in> set s \<Longrightarrow> filter P (foldl Set_add s xs) = filter P s"
  by (induction xs arbitrary: s) (auto simp: Set_add_def)

lemma set_resulting_labels: "set (resulting_labels c a r) = (set c \<union> set a) - set r"
  by (auto simp: resulting_labels_def new_Set_def set_foldl_Set_add)

lemma distinct_resulting_labels: "distinct (resulting_labels c a r)"
  by (simp add: resulting_labels_def new_Set_def distinct_foldl_Set_add)

text \<open>
  C1. Whatever the current labels, the labels to add and the labels to remove are,
  \<open>updateLabels\<close> gives \<open>replaceLabels\<close> a list without duplicates whose elements are
  the current labels and the labels to add, less every label to remove; so a label that
  is both to add and to remove is not in it.
\<close>

theorem updateLabels_union_minus:
  "updateLabels c a r = replaceLabels (resulting_labels c a r)
   \<and> set (resulting_labels c a r) = (set c \<union> set a) - set r
   \<and> distinct (resulting_labels c a r)
   \<and> (\<forall>l. l \<in> set a \<and> l \<in> set r \<longrightarrow> l \<notin> set (resulting_labels c a r))"
  by (simp add: set_resulting_labels distinct_resulting_labels updateLabels_def)

theorem updateLabels_union_minus_witness:
  "updateLabels [''bug'', ''docs''] [''wip'', ''bug''] [''wip'', ''docs'']
     = replaceLabels (resulting_labels [''bug'', ''docs''] [''wip'', ''bug''] [''wip'', ''docs''])
   \<and> set (resulting_labels [''bug'', ''docs''] [''wip'', ''bug''] [''wip'', ''docs'']) = {''bug''}
   \<and> ''wip'' \<in> set [''wip'', ''bug''] \<and> ''wip'' \<in> set [''wip'', ''docs'']
   \<and> ''wip'' \<notin> set (resulting_labels [''bug'', ''docs''] [''wip'', ''bug''] [''wip'', ''docs''])"
  using updateLabels_union_minus [of "[''bug'', ''docs'']" "[''wip'', ''bug'']" "[''wip'', ''docs'']"]
  by auto

text \<open>
  C9. Reconciling the result of a reconciliation again, with the same labels to add and
  to remove, gives the same list of labels (the same elements in the same order).
\<close>

theorem resulting_labels_idempotent:
  "resulting_labels (resulting_labels c a r) a r = resulting_labels c a r"
proof -
  let ?R = "resulting_labels c a r"
  let ?P = "\<lambda>p. p \<notin> set r"
  have d: "distinct ?R" by (rule distinct_resulting_labels)
  have "new_Set (?R @ a) = foldl Set_add ?R a"
    using foldl_Set_add_distinct [of "[]" ?R] d by (simp add: new_Set_def)
  moreover have "\<forall>x\<in>set a. ?P x \<longrightarrow> x \<in> set ?R"
    by (simp add: set_resulting_labels)
  then have "filter ?P (foldl Set_add ?R a) = filter ?P ?R"
    by (rule filter_foldl_Set_add)
  moreover have "filter ?P ?R = ?R"
    by (simp add: resulting_labels_def)
  ultimately show ?thesis
    by (simp add: resulting_labels_def [of ?R])
qed

subsection \<open>The matcher\<close>








subsection \<open>The evaluator\<close>

lemma LabelType_distinct:
  "filesChanged \<noteq> title" "alwaysRemove \<noteq> filesChanged" "mergeState \<noteq> filesChanged"
  "mergeState \<noteq> alwaysRemove" "title \<noteq> alwaysRemove" "title \<noteq> mergeState"
  by (simp_all add: filesChanged_def title_def mergeState_def alwaysRemove_def)


lemma spec_anyMatch_strings:
  "spec_anyMatch matches cs (map JStr ps) \<longleftrightarrow> (\<exists>p\<in>set ps. \<exists>c\<in>set cs. matches p c)"
  by (auto simp: spec_anyMatch_def list_ex_iff)






text \<open>
  C6. A rule with \<open>opened_only\<close> set, on an event whose action is not \<open>opened\<close>, leaves
  the labels to add and the labels to remove as they were, whatever its type, its
  patterns and its \<open>removable\<close> flag are.
\<close>

theorem run_rule_opened_only_skips:
  "opened_only key \<Longrightarrow> action f \<noteq> ''opened''
   \<Longrightarrow> run_rule matches f (key, globs) (adds, rems) = Inr (adds, rems)"
  by simp

theorem run_rule_opened_only_skips_witness:
  "opened_only \<lparr>type = alwaysRemove, label = ''triage'', removable = True, opened_only = True\<rparr>
   \<and> action \<lparr>action = ''synchronize'', changedFiles = [''a''], prTitle = ''t'',
        current_labels = [], mergeable = None\<rparr> \<noteq> ''opened''
   \<and> run_rule star_or_same
     \<lparr>action = ''synchronize'', changedFiles = [''a''], prTitle = ''t'',
        current_labels = [], mergeable = None\<rparr>
     (\<lparr>type = alwaysRemove, label = ''triage'', removable = True, opened_only = True\<rparr>, [JStr ''*''])
     ([''x''], [''y'']) = Inr ([''x''], [''y''])"
  using run_rule_opened_only_skips
    [of "\<lparr>type = alwaysRemove, label = ''triage'', removable = True, opened_only = True\<rparr>"
        "\<lparr>action = ''synchronize'', changedFiles = [''a''], prTitle = ''t'',
        current_labels = [], mergeable = None\<rparr>" star_or_same "[JStr ''*'']" "[''x'']" "[''y'']"]
  by simp

text \<open>
  C8. A run calls \<open>replaceLabels\<close> exactly when it has a pull request number, parses
  its configuration, evaluates the rules without an error and one of the two lists it
  ends with has an element. A run that ends with both lists empty completes without a
  call; a run that ends with an element in one of them completes with the one call,
  carrying the reconciled labels.
\<close>

theorem run_calls_iff_labels:
  "(calls (run matches prNumber f cfg) \<noteq> [] \<longleftrightarrow>
     (\<exists>n rules adds rems. prNumber = Some (Suc n) \<and> getLabelGlobMapFromObject cfg = Inr rules
        \<and> run_rules matches f rules ([], []) = Inr (adds, rems) \<and> (adds \<noteq> [] \<or> rems \<noteq> [])))
   \<and> (\<forall>n rules adds rems. prNumber = Some (Suc n) \<and> getLabelGlobMapFromObject cfg = Inr rules
        \<and> run_rules matches f rules ([], []) = Inr (adds, rems) \<longrightarrow>
        run matches prNumber f cfg =
          Completed (if adds \<noteq> [] \<or> rems \<noteq> []
                     then [replaceLabels (resulting_labels (current_labels f) adds rems)]
                     else []))"
  by (cases prNumber; cases "the prNumber")
     (auto simp: run_def updateLabels_def split: sum.splits)

theorem run_calls_iff_labels_witness:
  "calls (run star_or_same (Some 7)
     \<lparr>action = ''synchronize'', changedFiles = [''a''], prTitle = ''t'',
      current_labels = [''stale'', ''bug''], mergeable = Some True\<rparr>
     [(''stale'', JObj [(''type'', JStr ''alwaysRemove'')])]) \<noteq> []
   \<and> run star_or_same (Some 7)
     \<lparr>action = ''synchronize'', changedFiles = [''a''], prTitle = ''t'',
      current_labels = [''stale'', ''bug''], mergeable = Some True\<rparr>
     [(''stale'', JObj [(''type'', JStr ''alwaysRemove'')])]
     = Completed [replaceLabels (resulting_labels [''stale'', ''bug''] [] [''stale''])]
   \<and> run star_or_same (Some 7)
     \<lparr>action = ''synchronize'', changedFiles = [''a''], prTitle = ''t'',
      current_labels = [''stale'', ''bug''], mergeable = Some True\<rparr>
     [(''conflict'', JObj [(''type'', JStr ''mergeState'')])] = Completed []"
proof -
  let ?f = "\<lparr>action = ''synchronize'', changedFiles = [''a''], prTitle = ''t'',
      current_labels = [''stale'', ''bug''], mergeable = Some True\<rparr>"
  let ?k1 = "\<lparr>type = alwaysRemove, label = ''stale'', removable = False, opened_only = False\<rparr>"
  let ?k2 = "\<lparr>type = mergeState, label = ''conflict'', removable = False, opened_only = False\<rparr>"
  let ?c1 = "[(''stale'', JObj [(''type'', JStr ''alwaysRemove'')])]"
  let ?c2 = "[(''conflict'', JObj [(''type'', JStr ''mergeState'')])]"
  have p1: "getLabelGlobMapFromObject ?c1 = Inr [(?k1, [JStr ''not applicable''])]"
    by (simp add: getLabelGlobMapFromObject_def labelGlobs_entry_def alwaysRemove_def)
  have p2: "getLabelGlobMapFromObject ?c2 = Inr [(?k2, [JStr ''not applicable''])]"
    by (simp add: getLabelGlobMapFromObject_def labelGlobs_entry_def alwaysRemove_def
        mergeState_def)
  have r1: "run_rules star_or_same ?f [(?k1, [JStr ''not applicable''])] ([], []) = Inr ([], [''stale''])"
    by (simp add: alwaysRemove_def filesChanged_def)
  have r2: "run_rules star_or_same ?f [(?k2, [JStr ''not applicable''])] ([], []) = Inr ([], [])"
    by (simp add: alwaysRemove_def filesChanged_def mergeState_def)
  show ?thesis
    using run_calls_iff_labels [of star_or_same "Some 7" ?f ?c1]
      run_calls_iff_labels [of star_or_same "Some 7" ?f ?c2] p1 p2 r1 r2
    by (auto simp: numeral_eq_Suc)
qed

subsection \<open>The parser\<close>

lemma labelGlobs_loop_Inr:
  "labelGlobs_loop cfg acc = Inr rules \<longleftrightarrow>
     (\<exists>rs. rules = acc @ rs \<and> map (\<lambda>(lbl, body). labelGlobs_entry lbl body) cfg = map Inr rs)"
proof (induction cfg arbitrary: acc)
  case Nil
  then show ?case by auto
next
  case (Cons e cfg)
  obtain lbl body where e: "e = (lbl, body)" by (cases e)
  show ?case
  proof (cases "labelGlobs_entry lbl body")
    case (Inl err)
    then show ?thesis using e by auto
  next
    case (Inr kv)
    have "labelGlobs_loop (e # cfg) acc = Inr rules \<longleftrightarrow>
      (\<exists>rs. rules = (acc @ [kv]) @ rs \<and> map (\<lambda>(lbl, body). labelGlobs_entry lbl body) cfg = map Inr rs)"
      using e Inr Cons.IH [of "acc @ [kv]"] by simp
    also have "\<dots> \<longleftrightarrow> (\<exists>rs. rules = acc @ rs \<and>
        map (\<lambda>(lbl, body). labelGlobs_entry lbl body) (e # cfg) = map Inr rs)"
      using e Inr by (auto simp: Cons_eq_map_conv)
    finally show ?thesis .
  qed
qed

lemma getLabelGlobMapFromObject_Inr:
  "getLabelGlobMapFromObject cfg = Inr rules \<longleftrightarrow>
     map (\<lambda>(lbl, body). labelGlobs_entry lbl body) cfg = map Inr rules"
  by (simp add: getLabelGlobMapFromObject_def labelGlobs_loop_Inr)

lemma getLabelGlobMapFromObject_nth:
  assumes "getLabelGlobMapFromObject cfg = Inr rules"
  shows "length rules = length cfg"
    and "i < length cfg \<Longrightarrow> labelGlobs_entry (fst (cfg ! i)) (snd (cfg ! i)) = Inr (rules ! i)"
proof -
  have m: "map (\<lambda>(lbl, body). labelGlobs_entry lbl body) cfg = map Inr rules"
    using assms by (simp add: getLabelGlobMapFromObject_Inr)
  then show l: "length rules = length cfg"
    by (metis length_map)
  show "labelGlobs_entry (fst (cfg ! i)) (snd (cfg ! i)) = Inr (rules ! i)" if "i < length cfg"
  proof -
    have "map (\<lambda>(lbl, body). labelGlobs_entry lbl body) cfg ! i = map Inr rules ! i"
      using m by simp
    then show ?thesis using that l by (simp add: case_prod_beta)
  qed
qed

lemma labelGlobs_loop_Inl:
  "(lbl, body) \<in> set cfg \<Longrightarrow> labelGlobs_entry lbl body = Inl e
   \<Longrightarrow> \<exists>e'. labelGlobs_loop cfg acc = Inl e'"
proof (induction cfg arbitrary: acc)
  case Nil
  then show ?case by simp
next
  case (Cons x cfg)
  obtain l b where x: "x = (l, b)" by (cases x)
  show ?case
  proof (cases "labelGlobs_entry l b")
    case (Inl err)
    then show ?thesis using x by simp
  next
    case (Inr kv)
    then have "(lbl, body) \<in> set cfg" using Cons.prems x by auto
    then show ?thesis using Cons.IH Cons.prems(2) x Inr by simp
  qed
qed

lemma getLabelGlobMapFromObject_Inl:
  "(lbl, body) \<in> set cfg \<Longrightarrow> labelGlobs_entry lbl body = Inl e
   \<Longrightarrow> \<exists>e'. getLabelGlobMapFromObject cfg = Inl e'"
  by (simp add: getLabelGlobMapFromObject_def labelGlobs_loop_Inl)

lemma getprop_cases:
  "(body = JNull \<or> body = JUndefined) \<and> (\<forall>k. getprop body k = Inl TypeError)
   \<or> body \<noteq> JNull \<and> body \<noteq> JUndefined \<and> (\<forall>k. \<exists>v. getprop body k = Inr v)"
  by (cases body) auto

lemma labelGlobs_entry_eq:
  assumes "getprop body ''type'' = Inr t" and "getprop body ''patterns'' = Inr ps"
  shows "\<exists>key. type key = (case t of JStr s \<Rightarrow> s | _ \<Rightarrow> filesChanged) \<and> label key = lbl \<and>
     labelGlobs_entry lbl body =
      (case ps of
         JStr s \<Rightarrow> Inr (key, [JStr s])
       | JArr xs \<Rightarrow> Inr (key, xs)
       | _ \<Rightarrow> if t = JStr alwaysRemove \<or> t = JStr mergeState
              then Inr (key, [JStr ''not applicable''])
              else Inl (Error (unexpected_type lbl)))"
proof -
  have b: "body \<noteq> JNull" "body \<noteq> JUndefined" using assms(1) by auto
  obtain r where r: "getprop body ''removable'' = Inr r" using b by (cases body) auto
  obtain oo where oo: "getprop body ''opened_only'' = Inr oo" using b by (cases body) auto
  define kt where "kt = (case t of JStr s \<Rightarrow> s | _ \<Rightarrow> filesChanged)"
  define key where "key = \<lparr>type = kt, label = lbl,
     removable = (case r of JBool b \<Rightarrow> b | _ \<Rightarrow> False),
     opened_only = (case oo of JBool b \<Rightarrow> b | _ \<Rightarrow> False)\<rparr>"
  have k: "kt = alwaysRemove \<or> kt = mergeState \<longleftrightarrow> t = JStr alwaysRemove \<or> t = JStr mergeState"
    unfolding kt_def using LabelType_distinct by (cases t) auto
  have "labelGlobs_entry lbl body =
      (case ps of
         JStr s \<Rightarrow> Inr (key, [JStr s])
       | JArr xs \<Rightarrow> Inr (key, xs)
       | _ \<Rightarrow> if kt = alwaysRemove \<or> kt = mergeState
              then Inr (key, [JStr ''not applicable''])
              else Inl (Error (unexpected_type lbl)))"
    unfolding labelGlobs_entry_def Let_def key_def kt_def
    by (simp only: assms r oo sum.case)
  then have "labelGlobs_entry lbl body =
      (case ps of
         JStr s \<Rightarrow> Inr (key, [JStr s])
       | JArr xs \<Rightarrow> Inr (key, xs)
       | _ \<Rightarrow> if t = JStr alwaysRemove \<or> t = JStr mergeState
              then Inr (key, [JStr ''not applicable''])
              else Inl (Error (unexpected_type lbl)))"
    unfolding k .
  moreover have "type key = (case t of JStr s \<Rightarrow> s | _ \<Rightarrow> filesChanged)" "label key = lbl"
    by (simp_all add: key_def kt_def)
  ultimately show ?thesis by blast
qed

lemma labelGlobs_entry_null:
  "body = JNull \<or> body = JUndefined \<Longrightarrow> labelGlobs_entry lbl body = Inl TypeError"
  by (auto simp: labelGlobs_entry_def)

lemma labelGlobs_entry_InrD:
  assumes "labelGlobs_entry lbl body = Inr (key, globs)"
  shows "\<exists>t ps. getprop body ''type'' = Inr t \<and> getprop body ''patterns'' = Inr ps
     \<and> type key = (case t of JStr s \<Rightarrow> s | _ \<Rightarrow> filesChanged) \<and> label key = lbl
     \<and> globs = (case ps of JStr s \<Rightarrow> [JStr s] | JArr xs \<Rightarrow> xs | _ \<Rightarrow> [JStr ''not applicable''])"
proof -
  have "body \<noteq> JNull" "body \<noteq> JUndefined"
    using assms labelGlobs_entry_null [of body lbl] by auto
  then obtain t ps where g: "getprop body ''type'' = Inr t" "getprop body ''patterns'' = Inr ps"
    using getprop_cases [of body] by blast
  obtain key' where k: "type key' = (case t of JStr s \<Rightarrow> s | _ \<Rightarrow> filesChanged)"
      "label key' = lbl"
    and eq: "labelGlobs_entry lbl body =
      (case ps of
         JStr s \<Rightarrow> Inr (key', [JStr s])
       | JArr xs \<Rightarrow> Inr (key', xs)
       | _ \<Rightarrow> if t = JStr alwaysRemove \<or> t = JStr mergeState
              then Inr (key', [JStr ''not applicable''])
              else Inl (Error (unexpected_type lbl)))"
    using labelGlobs_entry_eq [OF g, of lbl] by blast
  have "key = key' \<and>
     globs = (case ps of JStr s \<Rightarrow> [JStr s] | JArr xs \<Rightarrow> xs | _ \<Rightarrow> [JStr ''not applicable''])"
    using assms eq by (cases ps) (auto split: if_splits)
  then show ?thesis using g k by blast
qed

lemma keytype_of_getprop:
  "getprop body ''type'' = Inr t \<Longrightarrow>
   (case getprop body ''type'' of Inr (JStr s) \<Rightarrow> s | _ \<Rightarrow> filesChanged)
     = (case t of JStr s \<Rightarrow> s | _ \<Rightarrow> filesChanged)"
  by (cases t) simp_all

lemma globs_empty_iff:
  "(case ps of JStr s \<Rightarrow> [JStr s] | JArr xs \<Rightarrow> xs | _ \<Rightarrow> [JStr ''not applicable'']) = []
     \<longleftrightarrow> ps = JArr []"
  by (cases ps) simp_all

text \<open>
  C3. The claim holds of what the parser documents (``transform any into a map of
  labels to string arrays, or throw if the YAML is malformed''; ``should be string or
  array of globs''), not of what it does: it tests \<open>patterns\<close> with \<open>instanceof Array\<close> only,
  so an array holding a number is accepted and the number is kept as a pattern, where
  the claim says the parse fails with an error naming the label.
\<close>

theorem non_string_pattern_accepted:
  "getLabelGlobMapFromObject [(''bug'', JObj [(''patterns'', JArr [JNum 5])])]
     = Inr [(\<lparr>type = filesChanged, label = ''bug'', removable = False, opened_only = False\<rparr>,
             [JNum 5])]"
  by (simp add: getLabelGlobMapFromObject_def labelGlobs_entry_def)

text \<open>
  C4, as amended. After a successful parse, the type of each rule is the \<open>type\<close> field
  of its entry whenever that field is a string, recognized or not, and \<open>filesChanged\<close>
  when the field is absent or is not a string.
\<close>

theorem parsed_type_is_type_field:
  assumes "getLabelGlobMapFromObject cfg = Inr rules"
  shows "map (\<lambda>(key, globs). type key) rules =
         map (\<lambda>(lbl, body). case getprop body ''type'' of Inr (JStr s) \<Rightarrow> s | _ \<Rightarrow> filesChanged) cfg"
proof (rule nth_equalityI)
  show "length (map (\<lambda>(key, globs). type key) rules) =
    length (map (\<lambda>(lbl, body). case getprop body ''type'' of Inr (JStr s) \<Rightarrow> s | _ \<Rightarrow> filesChanged) cfg)"
    using getLabelGlobMapFromObject_nth(1) [OF assms] by simp
next
  fix i assume "i < length (map (\<lambda>(key, globs). type key) rules)"
  then have i: "i < length cfg" "i < length rules"
    using getLabelGlobMapFromObject_nth(1) [OF assms] by simp_all
  obtain lbl body where c: "cfg ! i = (lbl, body)" by (cases "cfg ! i")
  obtain key globs where r: "rules ! i = (key, globs)" by (cases "rules ! i")
  have e: "labelGlobs_entry lbl body = Inr (key, globs)"
    using getLabelGlobMapFromObject_nth(2) [OF assms i(1)] c r by simp
  obtain t where t: "getprop body ''type'' = Inr t"
      "type key = (case t of JStr s \<Rightarrow> s | _ \<Rightarrow> filesChanged)"
    using labelGlobs_entry_InrD [OF e] by blast
  have "type key = (case getprop body ''type'' of Inr (JStr s) \<Rightarrow> s | _ \<Rightarrow> filesChanged)"
    using keytype_of_getprop [OF t(1)] t(2) by simp
  then show "map (\<lambda>(key, globs). type key) rules ! i =
    map (\<lambda>(lbl, body). case getprop body ''type'' of Inr (JStr s) \<Rightarrow> s | _ \<Rightarrow> filesChanged) cfg ! i"
    using i c r by simp
qed

theorem parsed_type_is_type_field_witness:
  "getLabelGlobMapFromObject
     [(''a'', JObj [(''type'', JStr ''title''), (''patterns'', JStr ''WIP*'')]),
      (''b'', JObj [(''type'', JStr ''bogus''), (''patterns'', JStr ''*'')]),
      (''c'', JObj [(''type'', JNum 3), (''patterns'', JStr ''*'')]),
      (''d'', JObj [(''patterns'', JStr ''*'')])]
    = Inr [(\<lparr>type = title, label = ''a'', removable = False, opened_only = False\<rparr>, [JStr ''WIP*'']),
           (\<lparr>type = ''bogus'', label = ''b'', removable = False, opened_only = False\<rparr>, [JStr ''*'']),
           (\<lparr>type = filesChanged, label = ''c'', removable = False, opened_only = False\<rparr>, [JStr ''*'']),
           (\<lparr>type = filesChanged, label = ''d'', removable = False, opened_only = False\<rparr>, [JStr ''*''])]
   \<and> map (\<lambda>(key, globs). type key)
       [(\<lparr>type = title, label = ''a'', removable = False, opened_only = False\<rparr>, [JStr ''WIP*'']),
        (\<lparr>type = ''bogus'', label = ''b'', removable = False, opened_only = False\<rparr>, [JStr ''*'']),
        (\<lparr>type = filesChanged, label = ''c'', removable = False, opened_only = False\<rparr>, [JStr ''*'']),
        (\<lparr>type = filesChanged, label = ''d'', removable = False, opened_only = False\<rparr>, [JStr ''*''])]
     = [''title'', ''bogus'', ''filesChanged'', ''filesChanged'']"
proof -
  let ?cfg = "[(''a'', JObj [(''type'', JStr ''title''), (''patterns'', JStr ''WIP*'')]),
      (''b'', JObj [(''type'', JStr ''bogus''), (''patterns'', JStr ''*'')]),
      (''c'', JObj [(''type'', JNum 3), (''patterns'', JStr ''*'')]),
      (''d'', JObj [(''patterns'', JStr ''*'')])]"
  let ?rules = "[(\<lparr>type = title, label = ''a'', removable = False, opened_only = False\<rparr>, [JStr ''WIP*'']),
           (\<lparr>type = ''bogus'', label = ''b'', removable = False, opened_only = False\<rparr>, [JStr ''*'']),
           (\<lparr>type = filesChanged, label = ''c'', removable = False, opened_only = False\<rparr>, [JStr ''*'']),
           (\<lparr>type = filesChanged, label = ''d'', removable = False, opened_only = False\<rparr>, [JStr ''*''])]"
  have p: "getLabelGlobMapFromObject ?cfg = Inr ?rules"
    by (simp add: getLabelGlobMapFromObject_def labelGlobs_entry_def title_def)
  have "map (\<lambda>(key, globs). type key) ?rules =
     map (\<lambda>(lbl, body). case getprop body ''type'' of Inr (JStr s) \<Rightarrow> s | _ \<Rightarrow> filesChanged) ?cfg"
    by (rule parsed_type_is_type_field [OF p])
  then have "map (\<lambda>(key, globs). type key) ?rules = [''title'', ''bogus'', ''filesChanged'', ''filesChanged'']"
    by (simp add: filesChanged_def)
  then show ?thesis using p by simp
qed

text \<open>
  C4 as stated fails: an unrecognized \<open>type\<close> string is kept as the type of the rule,
  which is then not \<open>filesChanged\<close>.
\<close>

theorem unrecognized_type_kept:
  "getLabelGlobMapFromObject [(''bug'', JObj [(''type'', JStr ''bogus''), (''patterns'', JStr ''*'')])]
     = Inr [(\<lparr>type = ''bogus'', label = ''bug'', removable = False, opened_only = False\<rparr>, [JStr ''*''])]
   \<and> type \<lparr>type = ''bogus'', label = ''bug'', removable = False, opened_only = False\<rparr> \<noteq> filesChanged"
  by (simp add: getLabelGlobMapFromObject_def labelGlobs_entry_def filesChanged_def)

text \<open>
  C5, as amended. A successful parse gives one rule per entry, and a rule has no
  pattern exactly when the \<open>patterns\<close> field of its entry is the empty array, which is
  accepted as it is for every type; every other rule has at least one pattern.
\<close>

theorem parsed_globs_empty_iff:
  assumes "getLabelGlobMapFromObject cfg = Inr rules"
  shows "length rules = length cfg \<and>
    (\<forall>i<length cfg. snd (rules ! i) = [] \<longleftrightarrow> getprop (snd (cfg ! i)) ''patterns'' = Inr (JArr []))"
proof (intro conjI allI impI)
  show "length rules = length cfg" by (rule getLabelGlobMapFromObject_nth(1) [OF assms])
next
  fix i assume i: "i < length cfg"
  obtain key globs where r: "rules ! i = (key, globs)" by (cases "rules ! i")
  have e: "labelGlobs_entry (fst (cfg ! i)) (snd (cfg ! i)) = Inr (key, globs)"
    using getLabelGlobMapFromObject_nth(2) [OF assms i] r by simp
  obtain ps where ps: "getprop (snd (cfg ! i)) ''patterns'' = Inr ps"
     "globs = (case ps of JStr s \<Rightarrow> [JStr s] | JArr xs \<Rightarrow> xs | _ \<Rightarrow> [JStr ''not applicable''])"
    using labelGlobs_entry_InrD [OF e] by blast
  show "snd (rules ! i) = [] \<longleftrightarrow> getprop (snd (cfg ! i)) ''patterns'' = Inr (JArr [])"
    using r ps(1) globs_empty_iff [of ps] by (simp add: ps(2))
qed

theorem parsed_globs_empty_iff_witness:
  "getLabelGlobMapFromObject
     [(''docs'', JObj [(''patterns'', JStr ''*.md'')]),
      (''none'', JObj [(''type'', JStr ''title''), (''patterns'', JArr [])])]
    = Inr [(\<lparr>type = filesChanged, label = ''docs'', removable = False, opened_only = False\<rparr>, [JStr ''*.md'']),
           (\<lparr>type = title, label = ''none'', removable = False, opened_only = False\<rparr>, [])]
   \<and> getprop (JObj [(''patterns'', JStr ''*.md'')]) ''patterns'' \<noteq> Inr (JArr [])
   \<and> getprop (JObj [(''type'', JStr ''title''), (''patterns'', JArr [])]) ''patterns'' = Inr (JArr [])"
proof -
  let ?cfg = "[(''docs'', JObj [(''patterns'', JStr ''*.md'')]),
      (''none'', JObj [(''type'', JStr ''title''), (''patterns'', JArr [])])]"
  let ?rules = "[(\<lparr>type = filesChanged, label = ''docs'', removable = False, opened_only = False\<rparr>, [JStr ''*.md'']),
           (\<lparr>type = title, label = ''none'', removable = False, opened_only = False\<rparr>, [])]"
  have p: "getLabelGlobMapFromObject ?cfg = Inr ?rules"
    by (simp add: getLabelGlobMapFromObject_def labelGlobs_entry_def title_def)
  have a: "\<forall>i<length ?cfg. snd (?rules ! i) = [] \<longleftrightarrow> getprop (snd (?cfg ! i)) ''patterns'' = Inr (JArr [])"
    using parsed_globs_empty_iff [OF p] by blast
  have "snd (?rules ! 0) = [] \<longleftrightarrow> getprop (snd (?cfg ! 0)) ''patterns'' = Inr (JArr [])"
    using a [rule_format, of 0] by simp
  moreover have "snd (?rules ! 1) = [] \<longleftrightarrow> getprop (snd (?cfg ! 1)) ''patterns'' = Inr (JArr [])"
    using a [rule_format, of 1] by simp
  ultimately show ?thesis using p by simp
qed

text \<open>
  C5 as stated fails: an entry of type \<open>filesChanged\<close> whose \<open>patterns\<close> field is the
  empty array is accepted, as a rule with no pattern.
\<close>

theorem empty_patterns_accepted:
  "getLabelGlobMapFromObject [(''bug'', JObj [(''patterns'', JArr [])])]
     = Inr [(\<lparr>type = filesChanged, label = ''bug'', removable = False, opened_only = False\<rparr>, [])]"
  by (simp add: getLabelGlobMapFromObject_def labelGlobs_entry_def)

text \<open>
  C10. An entry whose \<open>type\<close> field is a string other than the four members of
  \<open>LabelType\<close> and whose \<open>patterns\<close> field is a string or an array of strings parses
  without error, and its rule leaves the labels to add and the labels to remove as they
  were, for every matcher and all facts.
\<close>

theorem unrecognized_type_rule_inert:
  assumes "getprop body ''type'' = Inr (JStr t)"
    and "t \<noteq> filesChanged" "t \<noteq> title" "t \<noteq> mergeState" "t \<noteq> alwaysRemove"
    and "getprop body ''patterns'' = Inr (JStr s) \<or> getprop body ''patterns'' = Inr (JArr (map JStr ps))"
  shows "\<exists>key globs. labelGlobs_entry lbl body = Inr (key, globs)
      \<and> getLabelGlobMapFromObject [(lbl, body)] = Inr [(key, globs)]
      \<and> (\<forall>matches f adds rems. run_rule matches f (key, globs) (adds, rems) = Inr (adds, rems))"
proof -
  obtain pv where pv: "getprop body ''patterns'' = Inr pv" "pv = JStr s \<or> pv = JArr (map JStr ps)"
    using assms(6) by auto
  obtain key where key: "type key = t"
    and eq: "labelGlobs_entry lbl body =
      (case pv of
         JStr s \<Rightarrow> Inr (key, [JStr s])
       | JArr xs \<Rightarrow> Inr (key, xs)
       | _ \<Rightarrow> if JStr t = JStr alwaysRemove \<or> JStr t = JStr mergeState
              then Inr (key, [JStr ''not applicable''])
              else Inl (Error (unexpected_type lbl)))"
    using labelGlobs_entry_eq [OF assms(1) pv(1), of lbl] by auto
  obtain globs where g: "labelGlobs_entry lbl body = Inr (key, globs)"
    using eq pv(2) by auto
  have "run_rule matches f (key, globs) (adds, rems) = Inr (adds, rems)" for matches f adds rems
    using key assms(2-5) by simp
  moreover have "getLabelGlobMapFromObject [(lbl, body)] = Inr [(key, globs)]"
    using g by (simp add: getLabelGlobMapFromObject_def)
  ultimately show ?thesis using g by blast
qed

theorem unrecognized_type_rule_inert_witness:
  "\<exists>key globs.
     labelGlobs_entry ''bug'' (JObj [(''type'', JStr ''bogus''), (''patterns'', JArr [JStr ''*''])])
       = Inr (key, globs)
     \<and> getLabelGlobMapFromObject
         [(''bug'', JObj [(''type'', JStr ''bogus''), (''patterns'', JArr [JStr ''*''])])]
       = Inr [(key, globs)]
     \<and> (\<forall>matches f adds rems. run_rule matches f (key, globs) (adds, rems) = Inr (adds, rems))"
  using unrecognized_type_rule_inert [of "JObj [(''type'', JStr ''bogus''), (''patterns'', JArr [JStr ''*''])]" "''bogus''"
             "''''" "[''*'']" "''bug''"]
  by (simp del: run_rule.simps
        add: filesChanged_def title_def mergeState_def alwaysRemove_def)

end
